theory Spec2Isabelle
  imports Main "HOL-Library.Sublist"
begin

section \<open>The object store controller of pkg/operator/ceph/object/controller.go\<close>

text \<open>
  The controller's \<open>reconcile\<close> is a straight-line sequence of calls into the API client,
  the operator's helpers and the sibling files of the package, each followed by an early
  return on error. None of these callees is part of controller.go, so the embedding takes
  them as parameters: a record of functions over an arbitrary world \<open>'w\<close> (the API server,
  the Ceph cluster, the clock), each returning its Go results and the next world. The
  embedding threads the world through the calls in the order of the source and records
  every call, with its arguments and its results, in a trace; logger calls are recorded
  the same way. Properties of the control flow are then statements about the returned
  pair \<open>(reconcile.Result, error)\<close> and the trace.

  A callee is given the record by value: the embedding takes it that no callee changes
  the fields of the in-memory record that controller.go reads after the call (name,
  namespace, spec, deletion timestamp and the \<open>Status\<close> pointer).
\<close>

subsection \<open>Data\<close>

text \<open>\<open>reconcile.Result\<close> of controller-runtime; \<open>reconcile.Result{}\<close> is its zero value.\<close>

record Result =
  Requeue :: bool
  RequeueAfter :: int

definition Result_zero :: Result where
  "Result_zero = \<lparr>Requeue = False, RequeueAfter = 0\<rparr>"

text \<open>
  A Go \<open>error\<close> value that is not nil: an error returned by a callee (with the answer
  \<open>kerrors.IsNotFound\<close> gives on it, and its text), or the annotation of a cause by
  \<open>errors.Wrap\<close>/\<open>errors.Wrapf\<close> of github.com/pkg/errors, kept as the format string and
  its arguments. A Go \<open>error\<close> is an \<open>error option\<close>, \<open>None\<close> for nil.
\<close>

datatype error =
    CalleeError bool string
  | Wrapped error string "string list"

fun IsNotFound :: "error \<Rightarrow> bool" where
  "IsNotFound (CalleeError notFound _) = notFound"
| "IsNotFound (Wrapped _ _ _) = False"

text \<open>\<open>errors.Wrapf\<close> and \<open>errors.Wrap\<close> return nil when the error they are given is nil.\<close>

definition Wrapf :: "error option \<Rightarrow> string \<Rightarrow> string list \<Rightarrow> error option" where
  "Wrapf err format args = (case err of None \<Rightarrow> None | Some e \<Rightarrow> Some (Wrapped e format args))"

definition Wrap :: "error option \<Rightarrow> string \<Rightarrow> error option" where
  "Wrap err message = Wrapf err message []"

text \<open>
  The phases written by this file. The constants live in package k8sutil.
  Modelled from the spec: the values of \<open>k8sutil.Created\<close>, \<open>k8sutil.ReadyStatus\<close> and
  \<open>k8sutil.ReconcileFailedStatus\<close>, which the spec names \<open>Created\<close>, \<open>Ready\<close> and
  \<open>ReconcileFailed\<close>.
\<close>

definition Created :: string where "Created = ''Created''"
definition ReadyStatus :: string where "ReadyStatus = ''Ready''"
definition ReconcileFailedStatus :: string where "ReconcileFailedStatus = ''ReconcileFailed''"

text \<open>
  The fields of \<open>cephv1.CephObjectStore\<close> that controller.go reads or writes. \<open>Status\<close> is
  a pointer (\<open>None\<close> for nil). \<open>DeletionTimestamp\<close> is the \<open>*metav1.Time\<close> returned by
  \<open>GetDeletionTimestamp()\<close>; an instant is an integer, 0 the zero instant.
\<close>

record PoolSpec =
  FailureDomain :: string
  ReplicatedSize :: nat

record GatewaySpec =
  Port :: int

record ObjectStoreSpec =
  MetadataPool :: PoolSpec
  DataPool :: PoolSpec
  Gateway :: GatewaySpec

record Status =
  Phase :: string

record CephObjectStore =
  Name :: string
  Namespace :: string
  DeletionTimestamp :: "int option"
  Spec :: ObjectStoreSpec
  Status :: "Status option"

text \<open>\<open>(*metav1.Time).IsZero\<close>: true on a nil pointer and on the zero instant.\<close>

definition IsZero :: "int option \<Rightarrow> bool" where
  "IsZero t = (case t of None \<Rightarrow> True | Some i \<Rightarrow> i = 0)"

text \<open>\<open>types.NamespacedName\<close>, the only field of \<open>reconcile.Request\<close>.\<close>

record NamespacedName =
  nn_Namespace :: string
  nn_Name :: string

text \<open>The fields of \<open>cephv1.ClusterSpec\<close> and \<open>cephconfig.ClusterInfo\<close> that are read here.\<close>

record ClusterSpec =
  External_Enable :: bool
  CephVersion_Image :: string
  DataDirHostPath :: string
  SkipUpgradeChecks :: bool

record CephVersion =
  Major :: int
  Minor :: int
  Extra :: int

record ClusterInfo =
  ci_Name :: string
  ci_CephVersion :: CephVersion

text \<open>
  Values built by constructors of other files, which controller.go only passes on:
  the object context of \<open>NewContext\<close>, the pool model of \<open>PoolSpec.ToModel\<close> and the data
  path map of \<open>opconfig.NewStatelessDaemonDataPathMap\<close>. Each is kept as the constructor
  applied to its arguments.
\<close>

datatype Context = NewContext string string

datatype ModelPool = ToModel PoolSpec string

datatype DataPathMap = NewStatelessDaemonDataPathMap string string string string

text \<open>
  \<open>clusterConfig\<close>, as controller.go fills it. The handles \<open>context\<close>, \<open>client\<close> and \<open>scheme\<close>
  point into the world and are not fields of the model; a pointer field left out of a
  composite literal is nil (\<open>None\<close>).
\<close>

record clusterConfig =
  cfg_clusterInfo :: "ClusterInfo option"
  cfg_store :: CephObjectStore
  cfg_rookVersion :: string
  cfg_clusterSpec :: "ClusterSpec option"
  cfg_DataPathMap :: "DataPathMap option"
  cfg_skipUpgradeChecks :: bool

text \<open>
  The fields of the receiver \<open>ReconcileCephObjectStore\<close> that \<open>reconcile\<close> assigns on every
  ready path (lines 184, 192 and 200) before \<open>reconcileCreateObjectStore\<close> dereferences
  them.
\<close>

record ReconcileCephObjectStore =
  cephClusterSpec :: ClusterSpec
  clusterInfo :: ClusterInfo

text \<open>
  What a call of one of the functions below comes to: the Go results
  \<open>(reconcile.Result, error)\<close>, or the run-time panic of an assignment through a nil
  \<open>Status\<close> pointer.
\<close>

datatype outcome = Return Result "error option" | NilPointerPanic

subsection \<open>Callees, trace and state\<close>

datatype level = Debug | Error

datatype logarg = AStr string | AErr error

datatype event =
    E_Get NamespacedName "error + CephObjectStore"
  | E_UpdateStatus CephObjectStore "error option"
  | E_IsReadyToReconcile NamespacedName "ClusterSpec \<times> bool \<times> bool \<times> Result"
  | E_LoadClusterInfo string "error + ClusterInfo"
  | E_LeastUptodateDaemonVersion string string "CephVersion \<times> error option"
  | E_AddFinalizerIfNotPresent CephObjectStore "error option"
  | E_RemoveFinalizer CephObjectStore "error option"
  | E_deleteStore clusterConfig "error option"
  | E_validateStore CephObjectStore "error option"
  | E_reconcileService CephObjectStore "error + string"
  | E_createPools Context ModelPool ModelPool "error option"
  | E_reconcileRealm Context string int "error option"
  | E_ValidateCephVersions string CephVersion "error option"
  | E_createOrUpdateStore clusterConfig "error option"
  | E_logger level string "logarg list"

text \<open>
  The callees, in the order of their first use. \<open>MonType\<close> and \<open>RgwType\<close> are the
  constants of package opconfig and \<open>NotReadyAfter\<close> is the text of
  \<open>opcontroller.WaitForRequeueIfCephClusterNotReadyAfter.String()\<close>.
  \<open>ValidateCephVersionsBetweenLocalAndExternalClusters\<close> returns a version too, which
  controller.go discards.
\<close>

record 'w callees =
  client_Get :: "NamespacedName \<Rightarrow> 'w \<Rightarrow> (error + CephObjectStore) \<times> 'w"
  UpdateStatus :: "CephObjectStore \<Rightarrow> 'w \<Rightarrow> error option \<times> 'w"
  IsReadyToReconcile :: "NamespacedName \<Rightarrow> 'w \<Rightarrow> (ClusterSpec \<times> bool \<times> bool \<times> Result) \<times> 'w"
  LoadClusterInfo :: "string \<Rightarrow> 'w \<Rightarrow> (error + ClusterInfo) \<times> 'w"
  LeastUptodateDaemonVersion :: "string \<Rightarrow> string \<Rightarrow> 'w \<Rightarrow> (CephVersion \<times> error option) \<times> 'w"
  AddFinalizerIfNotPresent :: "CephObjectStore \<Rightarrow> 'w \<Rightarrow> error option \<times> 'w"
  RemoveFinalizer :: "CephObjectStore \<Rightarrow> 'w \<Rightarrow> error option \<times> 'w"
  deleteStore :: "clusterConfig \<Rightarrow> 'w \<Rightarrow> error option \<times> 'w"
  validateStore :: "CephObjectStore \<Rightarrow> 'w \<Rightarrow> error option \<times> 'w"
  reconcileService :: "CephObjectStore \<Rightarrow> 'w \<Rightarrow> (error + string) \<times> 'w"
  createPools :: "Context \<Rightarrow> ModelPool \<Rightarrow> ModelPool \<Rightarrow> 'w \<Rightarrow> error option \<times> 'w"
  reconcileRealm :: "Context \<Rightarrow> string \<Rightarrow> int \<Rightarrow> 'w \<Rightarrow> error option \<times> 'w"
  ValidateCephVersionsBetweenLocalAndExternalClusters :: "string \<Rightarrow> CephVersion \<Rightarrow> 'w \<Rightarrow> error option \<times> 'w"
  createOrUpdateStore :: "clusterConfig \<Rightarrow> 'w \<Rightarrow> error option \<times> 'w"
  MonType :: string
  RgwType :: string
  NotReadyAfter :: string

record 'w state =
  world :: 'w
  trace :: "event list"

definition start :: "'w \<Rightarrow> 'w state" where
  "start w = \<lparr>world = w, trace = []\<rparr>"

text \<open>One call of a callee: run it on the world, append the event built from its result.\<close>

definition call :: "('w \<Rightarrow> 'a \<times> 'w) \<Rightarrow> ('a \<Rightarrow> event) \<Rightarrow> 'w state \<Rightarrow> 'a \<times> 'w state" where
  "call f ev s =
     (case f (world s) of (a, w') \<Rightarrow> (a, \<lparr>world = w', trace = trace s @ [ev a]\<rparr>))"

definition logger :: "level \<Rightarrow> string \<Rightarrow> logarg list \<Rightarrow> 'w state \<Rightarrow> 'w state" where
  "logger lv format args s = s\<lparr>trace := trace s @ [E_logger lv format args]\<rparr>"

subsection \<open>The functions of controller.go\<close>

text \<open>
  The assignment \<open>cephObjectStore.Status.Phase = phase\<close>, which panics when \<open>Status\<close>
  is nil.
\<close>

definition setPhase :: "string \<Rightarrow> CephObjectStore \<Rightarrow> CephObjectStore option" where
  "setPhase phase cephObjectStore =
     (case Status cephObjectStore of
        None \<Rightarrow> None
      | Some st \<Rightarrow> Some (cephObjectStore\<lparr>Status := Some (st\<lparr>Phase := phase\<rparr>)\<rparr>))"

text \<open>\<open>setFailedStatus\<close>, lines 306 to 314.\<close>

definition setFailedStatus ::
  "'w callees \<Rightarrow> CephObjectStore \<Rightarrow> string \<Rightarrow> error option \<Rightarrow> 'w state \<Rightarrow> outcome \<times> 'w state" where
  "setFailedStatus ext cephObjectStore errMessage err s =
     (case setPhase ReconcileFailedStatus cephObjectStore of
        None \<Rightarrow> (NilPointerPanic, s)
      | Some failed \<Rightarrow>
     (case call (UpdateStatus ext failed) (E_UpdateStatus failed) s of
        (Some errStatus, s1) \<Rightarrow>
          (Return Result_zero (Wrapf err ''%s'' [errMessage]),
           logger Error ''failed to set status. %v'' [AErr errStatus] s1)
      | (None, s1) \<Rightarrow> (Return Result_zero (Wrapf err ''%s'' [errMessage]), s1)))"

text \<open>
  \<open>reconcileCreateObjectStore\<close>, lines 276 to 304: the composite literal of lines 286 to
  296, the call of lines 298 to 303, and the function.
\<close>

definition createConfig ::
  "'w callees \<Rightarrow> ReconcileCephObjectStore \<Rightarrow> CephObjectStore \<Rightarrow> clusterConfig" where
  "createConfig ext r cephObjectStore =
     \<lparr>cfg_clusterInfo = Some (clusterInfo r),
      cfg_store = cephObjectStore,
      cfg_rookVersion = CephVersion_Image (cephClusterSpec r),
      cfg_clusterSpec = Some (cephClusterSpec r),
      cfg_DataPathMap = Some (NewStatelessDaemonDataPathMap (RgwType ext) (Name cephObjectStore)
         (Namespace cephObjectStore) (DataDirHostPath (cephClusterSpec r))),
      cfg_skipUpgradeChecks = SkipUpgradeChecks (cephClusterSpec r)\<rparr>"

definition createStore ::
  "'w callees \<Rightarrow> ReconcileCephObjectStore \<Rightarrow> CephObjectStore \<Rightarrow> 'w state \<Rightarrow> outcome \<times> 'w state" where
  "createStore ext r cephObjectStore s =
     (let cfg = createConfig ext r cephObjectStore in
      case call (createOrUpdateStore ext cfg) (E_createOrUpdateStore cfg) s of
        (Some err, s1) \<Rightarrow>
          (Return Result_zero
             (Wrapf (Some err) ''failed to create object store %q'' [Name cephObjectStore]), s1)
      | (None, s1) \<Rightarrow> (Return Result_zero None, s1))"

definition reconcileCreateObjectStore ::
  "'w callees \<Rightarrow> ReconcileCephObjectStore \<Rightarrow> CephObjectStore \<Rightarrow> 'w state \<Rightarrow> outcome \<times> 'w state" where
  "reconcileCreateObjectStore ext r cephObjectStore s =
     (if External_Enable (cephClusterSpec r) then
        (case call (ValidateCephVersionsBetweenLocalAndExternalClusters ext (Namespace cephObjectStore) (ci_CephVersion (clusterInfo r)))
                (E_ValidateCephVersions (Namespace cephObjectStore) (ci_CephVersion (clusterInfo r))) s of
           (Some err, s1) \<Rightarrow>
             (Return Result_zero (Wrapf (Some err) ''refusing to run new crd'' []), s1)
         | (None, s1) \<Rightarrow> createStore ext r cephObjectStore s1)
      else createStore ext r cephObjectStore s)"

text \<open>
  \<open>reconcile\<close>, lines 138 to 274, in three parts: the creation or update of lines 227 to
  273, the deletion of lines 208 to 225, and the head of the function, lines 138 to 206,
  which ends in one of the two.
\<close>

definition reconcileUpdate ::
  "'w callees \<Rightarrow> ReconcileCephObjectStore \<Rightarrow> CephObjectStore \<Rightarrow> 'w state \<Rightarrow> outcome \<times> 'w state" where
  "reconcileUpdate ext r cephObjectStore s =
     (case call (validateStore ext cephObjectStore) (E_validateStore cephObjectStore) s of
        (Some err, s1) \<Rightarrow>
          (Return Result_zero
             (Wrapf (Some err) ''invalid object store %q arguments'' [Name cephObjectStore]), s1)
      | (None, s1) \<Rightarrow>
     (case call (reconcileService ext cephObjectStore) (E_reconcileService cephObjectStore)
             (logger Debug ''reconciling object store service'' [] s1) of
        (Inl err, s2) \<Rightarrow>
          setFailedStatus ext cephObjectStore ''failed to reconcile service'' (Some err) s2
      | (Inr serviceIP, s2) \<Rightarrow>
     (let objContext = NewContext (Name cephObjectStore) (Namespace cephObjectStore);
          metadataPoolToModel = ToModel (MetadataPool (Spec cephObjectStore)) '''';
          dataPoolToModel = ToModel (DataPool (Spec cephObjectStore)) '''' in
      case call (createPools ext objContext metadataPoolToModel dataPoolToModel)
             (E_createPools objContext metadataPoolToModel dataPoolToModel)
             (logger Debug ''reconciling object store pools'' [] s2) of
        (Some err, s3) \<Rightarrow>
          setFailedStatus ext cephObjectStore ''failed to create object pools'' (Some err) s3
      | (None, s3) \<Rightarrow>
     (case call (reconcileRealm ext objContext serviceIP (Port (Gateway (Spec cephObjectStore))))
             (E_reconcileRealm objContext serviceIP (Port (Gateway (Spec cephObjectStore))))
             (logger Debug ''reconciling object store realms'' [] s3) of
        (Some err, s4) \<Rightarrow>
          setFailedStatus ext cephObjectStore ''failed to create object store realm'' (Some err) s4
      | (None, s4) \<Rightarrow>
     (case reconcileCreateObjectStore ext r cephObjectStore
             (logger Debug ''reconciling object store deployments'' [] s4) of
        (NilPointerPanic, s5) \<Rightarrow> (NilPointerPanic, s5)
      | (Return reconcileResponse (Some err), s5) \<Rightarrow>
          setFailedStatus ext cephObjectStore ''failed to create object store deployments'' (Some err) s5
      | (Return reconcileResponse None, s5) \<Rightarrow>
     (case setPhase ReadyStatus cephObjectStore of
        None \<Rightarrow> (NilPointerPanic, s5)
      | Some ready \<Rightarrow>
     (case call (UpdateStatus ext ready) (E_UpdateStatus ready) s5 of
        (Some err, s6) \<Rightarrow> (Return Result_zero (Wrap (Some err) ''failed to set status''), s6)
      | (None, s6) \<Rightarrow> (Return Result_zero None, logger Debug ''done reconciling'' [] s6))))))))"

text \<open>The composite literal of line 211: every field but \<open>context\<close> and \<open>store\<close> is zero.\<close>

definition deleteConfig :: "CephObjectStore \<Rightarrow> clusterConfig" where
  "deleteConfig cephObjectStore =
     \<lparr>cfg_clusterInfo = None, cfg_store = cephObjectStore, cfg_rookVersion = '''',
      cfg_clusterSpec = None, cfg_DataPathMap = None, cfg_skipUpgradeChecks = False\<rparr>"

definition reconcileDelete ::
  "'w callees \<Rightarrow> CephObjectStore \<Rightarrow> 'w state \<Rightarrow> outcome \<times> 'w state" where
  "reconcileDelete ext cephObjectStore s =
     (let cfg = deleteConfig cephObjectStore in
      case call (deleteStore ext cfg) (E_deleteStore cfg)
             (logger Debug ''deleting store %q'' [AStr (Name cephObjectStore)] s) of
        (Some err, s1) \<Rightarrow>
          (Return Result_zero
             (Wrapf (Some err) ''failed to delete store %q. '' [Name cephObjectStore]), s1)
      | (None, s1) \<Rightarrow>
     (case call (RemoveFinalizer ext cephObjectStore) (E_RemoveFinalizer cephObjectStore) s1 of
        (Some err, s2) \<Rightarrow> (Return Result_zero (Wrap (Some err) ''failed to remove finalizer''), s2)
      | (None, s2) \<Rightarrow> (Return Result_zero None, s2)))"

text \<open>Lines 161 to 206, and the branch of line 209.\<close>

definition reconcileCluster ::
  "'w callees \<Rightarrow> NamespacedName \<Rightarrow> CephObjectStore \<Rightarrow> 'w state \<Rightarrow> outcome \<times> 'w state" where
  "reconcileCluster ext request cephObjectStore s =
     (case call (IsReadyToReconcile ext request) (E_IsReadyToReconcile request) s of
        ((clusterSpec, isReadyToReconcile, cephClusterExists, reconcileResponse), s1) \<Rightarrow>
     if \<not> isReadyToReconcile then
       (if \<not> IsZero (DeletionTimestamp cephObjectStore) \<and> \<not> cephClusterExists then
          (case call (RemoveFinalizer ext cephObjectStore) (E_RemoveFinalizer cephObjectStore) s1 of
             (Some err, s2) \<Rightarrow>
               (Return Result_zero (Wrap (Some err) ''failed to remove finalizer''), s2)
           | (None, s2) \<Rightarrow> (Return Result_zero None, s2))
        else
          (Return reconcileResponse None,
           logger Debug ''CephCluster resource not ready in namespace %q, retrying in %q.''
             [AStr (nn_Namespace request), AStr (NotReadyAfter ext)] s1))
     else
     (case call (LoadClusterInfo ext (nn_Namespace request))
             (E_LoadClusterInfo (nn_Namespace request)) s1 of
        (Inl err, s2) \<Rightarrow>
          (Return Result_zero (Wrap (Some err) ''failed to populate cluster info''), s2)
      | (Inr loaded, s2) \<Rightarrow>
     (let daemon = MonType ext in
      case call (LeastUptodateDaemonVersion ext (ci_Name loaded) daemon)
             (E_LeastUptodateDaemonVersion (ci_Name loaded) daemon) s2 of
        ((currentCephVersion, err), s3) \<Rightarrow>
     (let s4 = (case err of
                  Some e \<Rightarrow> logger Error ''failed to retrieve current ceph %q version. %v''
                              [AStr daemon, AErr e] s3
                | None \<Rightarrow> s3);
          r = \<lparr>cephClusterSpec = clusterSpec,
               clusterInfo = loaded\<lparr>ci_CephVersion := currentCephVersion\<rparr>\<rparr> in
      case call (AddFinalizerIfNotPresent ext cephObjectStore)
             (E_AddFinalizerIfNotPresent cephObjectStore) s4 of
        (Some err, s5) \<Rightarrow> (Return Result_zero (Wrap (Some err) ''failed to add finalizer''), s5)
      | (None, s5) \<Rightarrow>
     if \<not> IsZero (DeletionTimestamp cephObjectStore)
     then reconcileDelete ext cephObjectStore s5
     else reconcileUpdate ext r cephObjectStore s5))))"

text \<open>Lines 138 to 159, then the rest.\<close>

definition reconcile :: "'w callees \<Rightarrow> NamespacedName \<Rightarrow> 'w \<Rightarrow> outcome \<times> 'w state" where
  "reconcile ext request w =
     (case call (client_Get ext request) (E_Get request) (start w) of
        (Inl err, s1) \<Rightarrow>
          if IsNotFound err then
            (Return Result_zero None,
             logger Debug
               ''cephObjectStore resource not found. Ignoring since object must be deleted.'' [] s1)
          else (Return Result_zero (Wrap (Some err) ''failed to get cephObjectStore''), s1)
      | (Inr cephObjectStore, s1) \<Rightarrow>
          if Status cephObjectStore = None then
            (let created = cephObjectStore\<lparr>Status := Some \<lparr>Phase = Created\<rparr>\<rparr> in
             case call (UpdateStatus ext created) (E_UpdateStatus created) s1 of
               (Some err, s2) \<Rightarrow> (Return Result_zero (Wrap (Some err) ''failed to set status''), s2)
             | (None, s2) \<Rightarrow> reconcileCluster ext request created s2)
          else reconcileCluster ext request cephObjectStore s1)"

text \<open>The exported \<open>Reconcile\<close>, lines 128 to 136.\<close>

definition Reconcile :: "'w callees \<Rightarrow> NamespacedName \<Rightarrow> 'w \<Rightarrow> outcome \<times> 'w state" where
  "Reconcile ext request w =
     (case reconcile ext request w of
        (Return reconcileResponse (Some err), s) \<Rightarrow>
          (Return reconcileResponse (Some err), logger Error ''failed to reconcile %v'' [AErr err] s)
      | (out, s) \<Rightarrow> (out, s))"

subsection \<open>Reading a trace\<close>

text \<open>
  The phases of the creation or update, and the phase a call belongs to. The workload
  phase is \<open>reconcileCreateObjectStore\<close>, which makes up to two calls.
\<close>

datatype phase = Validation | Endpoint | Pools | Realm | Workload

fun phase_of :: "event \<Rightarrow> phase option" where
  "phase_of (E_validateStore _ _) = Some Validation"
| "phase_of (E_reconcileService _ _) = Some Endpoint"
| "phase_of (E_createPools _ _ _ _) = Some Pools"
| "phase_of (E_reconcileRealm _ _ _ _) = Some Realm"
| "phase_of (E_ValidateCephVersions _ _ _) = Some Workload"
| "phase_of (E_createOrUpdateStore _ _) = Some Workload"
| "phase_of _ = None"

definition is_phase :: "event \<Rightarrow> bool" where
  "is_phase e = (phase_of e \<noteq> None)"

text \<open>The phases of the calls of a trace, in the order of the calls.\<close>

fun phases :: "event list \<Rightarrow> phase list" where
  "phases [] = []"
| "phases (e # es) = (case phase_of e of None \<Rightarrow> phases es | Some p \<Rightarrow> p # phases es)"

fun is_teardown :: "event \<Rightarrow> bool" where
  "is_teardown (E_deleteStore _ _) = True"
| "is_teardown _ = False"

fun is_status_write :: "event \<Rightarrow> bool" where
  "is_status_write (E_UpdateStatus _ _) = True"
| "is_status_write _ = False"

fun is_finalizer_write :: "event \<Rightarrow> bool" where
  "is_finalizer_write (E_AddFinalizerIfNotPresent _ _) = True"
| "is_finalizer_write (E_RemoveFinalizer _ _) = True"
| "is_finalizer_write _ = False"

fun is_finalizer_removal :: "event \<Rightarrow> bool" where
  "is_finalizer_removal (E_RemoveFinalizer _ _) = True"
| "is_finalizer_removal _ = False"

text \<open>The error a call returned, if it returned one.\<close>

fun failure :: "event \<Rightarrow> error option" where
  "failure (E_Get _ res) = (case res of Inl e \<Rightarrow> Some e | Inr _ \<Rightarrow> None)"
| "failure (E_UpdateStatus _ res) = res"
| "failure (E_IsReadyToReconcile _ _) = None"
| "failure (E_LoadClusterInfo _ res) = (case res of Inl e \<Rightarrow> Some e | Inr _ \<Rightarrow> None)"
| "failure (E_LeastUptodateDaemonVersion _ _ res) = snd res"
| "failure (E_AddFinalizerIfNotPresent _ res) = res"
| "failure (E_RemoveFinalizer _ res) = res"
| "failure (E_deleteStore _ res) = res"
| "failure (E_validateStore _ res) = res"
| "failure (E_reconcileService _ res) = (case res of Inl e \<Rightarrow> Some e | Inr _ \<Rightarrow> None)"
| "failure (E_createPools _ _ _ res) = res"
| "failure (E_reconcileRealm _ _ _ res) = res"
| "failure (E_ValidateCephVersions _ _ res) = res"
| "failure (E_createOrUpdateStore _ res) = res"
| "failure (E_logger _ _ _) = None"

text \<open>An error is, or annotates at some depth, a given error.\<close>

fun wraps :: "error \<Rightarrow> error \<Rightarrow> bool" where
  "wraps (CalleeError nf msg) c = (c = CalleeError nf msg)"
| "wraps (Wrapped e format args) c = (c = Wrapped e format args \<or> wraps e c)"

text \<open>The phase a status write records.\<close>

definition written_phase :: "CephObjectStore \<Rightarrow> string option" where
  "written_phase obj = map_option Phase (Status obj)"


subsection \<open>The traces of a run, piece by piece\<close>

text \<open>
  Names for the stretches of trace that the lemmas below speak of. \<open>status_events\<close> is
  what \<open>setFailedStatus\<close> appends: the status write with its result, then the log line
  when the write failed. The \<open>to_...\<close> lists are the prefixes of a creation or update
  that got as far as the named call; \<open>to_finalizer\<close>, \<open>fetched_events\<close> and
  \<open>ready_events\<close> are the prefixes of \<open>reconcile\<close> itself. \<open>initial\<close> is the record
  after lines 152 to 159.
\<close>

definition status_events :: "CephObjectStore \<Rightarrow> error option \<Rightarrow> event list" where
  "status_events failed res =
     E_UpdateStatus failed res #
     (case res of None \<Rightarrow> [] | Some e \<Rightarrow> [E_logger Error ''failed to set status. %v'' [AErr e]])"

abbreviation with_phase :: "string \<Rightarrow> CephObjectStore \<Rightarrow> CephObjectStore" where
  "with_phase p obj \<equiv> obj\<lparr>Status := Some ((the (Status obj))\<lparr>Phase := p\<rparr>)\<rparr>"

abbreviation objContext :: "CephObjectStore \<Rightarrow> Context" where
  "objContext obj \<equiv> NewContext (Name obj) (Namespace obj)"

abbreviation ev_createPools :: "CephObjectStore \<Rightarrow> error option \<Rightarrow> event" where
  "ev_createPools obj \<equiv> E_createPools (objContext obj) (ToModel (MetadataPool (Spec obj)) '''') (ToModel (DataPool (Spec obj)) '''')"

abbreviation ev_reconcileRealm :: "CephObjectStore \<Rightarrow> string \<Rightarrow> error option \<Rightarrow> event" where
  "ev_reconcileRealm obj ip \<equiv> E_reconcileRealm (objContext obj) ip (Port (Gateway (Spec obj)))"

abbreviation to_service :: "CephObjectStore \<Rightarrow> event list" where
  "to_service obj \<equiv> [E_validateStore obj None, E_logger Debug ''reconciling object store service'' []]"

abbreviation to_pools :: "CephObjectStore \<Rightarrow> string \<Rightarrow> event list" where
  "to_pools obj ip \<equiv> to_service obj @
     [E_reconcileService obj (Inr ip), E_logger Debug ''reconciling object store pools'' []]"

abbreviation to_realm :: "CephObjectStore \<Rightarrow> string \<Rightarrow> event list" where
  "to_realm obj ip \<equiv> to_pools obj ip @
     [ev_createPools obj None, E_logger Debug ''reconciling object store realms'' []]"

abbreviation to_workload :: "CephObjectStore \<Rightarrow> string \<Rightarrow> event list" where
  "to_workload obj ip \<equiv> to_realm obj ip @
     [ev_reconcileRealm obj ip None, E_logger Debug ''reconciling object store deployments'' []]"

abbreviation ev_ValidateCephVersions :: "ReconcileCephObjectStore \<Rightarrow> CephObjectStore \<Rightarrow> error option \<Rightarrow> event" where
  "ev_ValidateCephVersions r obj \<equiv> E_ValidateCephVersions (Namespace obj) (ci_CephVersion (clusterInfo r))"

abbreviation to_create :: "ReconcileCephObjectStore \<Rightarrow> CephObjectStore \<Rightarrow> string \<Rightarrow> event list" where
  "to_create r obj ip \<equiv> to_workload obj ip @
     (if External_Enable (cephClusterSpec r) then [ev_ValidateCephVersions r obj None] else [])"

abbreviation least_events :: "string \<Rightarrow> string \<Rightarrow> CephVersion \<Rightarrow> error option \<Rightarrow> event list" where
  "least_events name daemon v verr \<equiv>
     E_LeastUptodateDaemonVersion name daemon (v, verr) #
     (case verr of None \<Rightarrow> []
      | Some e \<Rightarrow> [E_logger Error ''failed to retrieve current ceph %q version. %v'' [AStr daemon, AErr e]])"

abbreviation to_finalizer ::
  "'w callees \<Rightarrow> NamespacedName \<Rightarrow> ClusterSpec \<Rightarrow> bool \<Rightarrow> Result \<Rightarrow> ClusterInfo \<Rightarrow> CephVersion
     \<Rightarrow> error option \<Rightarrow> event list" where
  "to_finalizer ext request spec ex resp loaded v verr \<equiv>
     [E_IsReadyToReconcile request (spec, True, ex, resp),
      E_LoadClusterInfo (nn_Namespace request) (Inr loaded)]
     @ least_events (ci_Name loaded) (MonType ext) v verr"

abbreviation receiver :: "ClusterSpec \<Rightarrow> ClusterInfo \<Rightarrow> CephVersion \<Rightarrow> ReconcileCephObjectStore" where
  "receiver spec loaded v \<equiv> \<lparr>cephClusterSpec = spec, clusterInfo = loaded\<lparr>ci_CephVersion := v\<rparr>\<rparr>"

abbreviation initial :: "CephObjectStore \<Rightarrow> CephObjectStore" where
  "initial fetched \<equiv>
     (if Status fetched = None then fetched\<lparr>Status := Some \<lparr>Phase = Created\<rparr>\<rparr> else fetched)"

abbreviation fetched_events :: "NamespacedName \<Rightarrow> CephObjectStore \<Rightarrow> event list" where
  "fetched_events request fetched \<equiv>
     E_Get request (Inr fetched) #
     (if Status fetched = None then [E_UpdateStatus (initial fetched) None] else [])"

abbreviation ready_events ::
  "'w callees \<Rightarrow> NamespacedName \<Rightarrow> CephObjectStore \<Rightarrow> ClusterSpec \<Rightarrow> bool \<Rightarrow> Result
     \<Rightarrow> ClusterInfo \<Rightarrow> CephVersion \<Rightarrow> error option \<Rightarrow> event list" where
  "ready_events ext request fetched spec ex resp loaded v verr \<equiv>
     fetched_events request fetched @ to_finalizer ext request spec ex resp loaded v verr
     @ [E_AddFinalizerIfNotPresent (initial fetched) None]"


subsection \<open>Concrete runs\<close>

text \<open>
  A request, a record and callees to run the model on. The world of these callees is the
  number of calls made so far. With \<open>calm\<close> every call succeeds and the cluster is ready;
  the other callees differ from it in one or two calls.
\<close>

definition demo_request :: NamespacedName where
  "demo_request = \<lparr>nn_Namespace = ''rook-ceph'', nn_Name = ''my-store''\<rparr>"

definition demo_store :: CephObjectStore where
  "demo_store =
     \<lparr>Name = ''my-store'', Namespace = ''rook-ceph'', DeletionTimestamp = None,
      Spec = \<lparr>MetadataPool = \<lparr>FailureDomain = ''host'', ReplicatedSize = 3\<rparr>,
              DataPool = \<lparr>FailureDomain = ''host'', ReplicatedSize = 3\<rparr>,
              Gateway = \<lparr>Port = 80\<rparr>\<rparr>,
      Status = None\<rparr>"

definition demo_created :: CephObjectStore where
  "demo_created = demo_store\<lparr>Status := Some \<lparr>Phase = Created\<rparr>\<rparr>"

definition demo_ready :: CephObjectStore where
  "demo_ready = demo_store\<lparr>Status := Some \<lparr>Phase = ReadyStatus\<rparr>\<rparr>"

definition demo_failed :: CephObjectStore where
  "demo_failed = demo_store\<lparr>Status := Some \<lparr>Phase = ReconcileFailedStatus\<rparr>\<rparr>"

definition demo_deleted :: CephObjectStore where
  "demo_deleted = demo_ready\<lparr>DeletionTimestamp := Some 1700000000\<rparr>"

definition demo_spec :: ClusterSpec where
  "demo_spec = \<lparr>External_Enable = False, CephVersion_Image = ''ceph/ceph:v14.2.8'',
                 DataDirHostPath = ''/var/lib/rook'', SkipUpgradeChecks = False\<rparr>"

definition demo_info :: ClusterInfo where
  "demo_info = \<lparr>ci_Name = ''rook-ceph'', ci_CephVersion = \<lparr>Major = 0, Minor = 0, Extra = 0\<rparr>\<rparr>"

definition demo_version :: CephVersion where
  "demo_version = \<lparr>Major = 14, Minor = 2, Extra = 8\<rparr>"

definition demo_external :: ReconcileCephObjectStore where
  "demo_external = \<lparr>cephClusterSpec = demo_spec\<lparr>External_Enable := True\<rparr>,
                     clusterInfo = demo_info\<lparr>ci_CephVersion := demo_version\<rparr>\<rparr>"

definition demo_local :: ReconcileCephObjectStore where
  "demo_local = \<lparr>cephClusterSpec = demo_spec,
                  clusterInfo = demo_info\<lparr>ci_CephVersion := demo_version\<rparr>\<rparr>"

definition requeue10 :: Result where
  "requeue10 = \<lparr>Requeue = True, RequeueAfter = 10000000000\<rparr>"

definition calm :: "CephObjectStore \<Rightarrow> nat callees" where
  "calm obj =
     \<lparr>client_Get = (\<lambda>n w. (Inr obj, Suc w)),
      UpdateStatus = (\<lambda>st w. (None, Suc w)),
      IsReadyToReconcile = (\<lambda>n w. ((demo_spec, True, True, Result_zero), Suc w)),
      LoadClusterInfo = (\<lambda>ns w. (Inr demo_info, Suc w)),
      LeastUptodateDaemonVersion = (\<lambda>n d w. ((demo_version, None), Suc w)),
      AddFinalizerIfNotPresent = (\<lambda>st w. (None, Suc w)),
      RemoveFinalizer = (\<lambda>st w. (None, Suc w)),
      deleteStore = (\<lambda>cfg w. (None, Suc w)),
      validateStore = (\<lambda>st w. (None, Suc w)),
      reconcileService = (\<lambda>st w. (Inr ''10.0.0.7'', Suc w)),
      createPools = (\<lambda>c m d w. (None, Suc w)),
      reconcileRealm = (\<lambda>c ip port w. (None, Suc w)),
      ValidateCephVersionsBetweenLocalAndExternalClusters = (\<lambda>ns v w. (None, Suc w)),
      createOrUpdateStore = (\<lambda>cfg w. (None, Suc w)),
      MonType = ''mon'',
      RgwType = ''rgw'',
      NotReadyAfter = ''10s''\<rparr>"

definition busy :: error where "busy = CalleeError False ''pool is in use''"
definition refused :: error where "refused = CalleeError False ''connection refused''"
definition missing :: error where "missing = CalleeError True ''cephobjectstore not found''"
definition no_secret :: error where "no_secret = CalleeError False ''mon secret missing''"
definition no_versions :: error where "no_versions = CalleeError False ''ceph versions timed out''"
definition bad_port :: error where "bad_port = CalleeError False ''invalid port''"
definition no_realm :: error where "no_realm = CalleeError False ''realm create failed''"
definition conflict :: error where "conflict = CalleeError False ''object has been modified''"
definition mismatch :: error where "mismatch = CalleeError False ''major version mismatch''"

text \<open>A deletion with a ready cluster, the same with a failing teardown, and with no cluster.\<close>

definition run_deleted :: "outcome \<times> nat state" where
  "run_deleted = reconcile (calm demo_deleted) demo_request 0"

definition stuck :: "nat callees" where
  "stuck = (calm demo_deleted)\<lparr>deleteStore := (\<lambda>cfg w. (Some busy, Suc w))\<rparr>"

definition run_stuck :: "outcome \<times> nat state" where
  "run_stuck = reconcile stuck demo_request 0"



text \<open>A new record with a ready cluster, and with a cluster that is not ready yet.\<close>

definition run_calm :: "outcome \<times> nat state" where
  "run_calm = reconcile (calm demo_store) demo_request 0"

definition waiting :: "nat callees" where
  "waiting = (calm demo_store)
     \<lparr>IsReadyToReconcile := (\<lambda>n w. ((demo_spec, False, True, requeue10), Suc w))\<rparr>"

definition run_waiting :: "outcome \<times> nat state" where
  "run_waiting = reconcile waiting demo_request 0"

text \<open>Failing reads: of the record, of the cluster info, of the daemon versions.\<close>

definition unreachable :: "nat callees" where
  "unreachable = (calm demo_store)\<lparr>client_Get := (\<lambda>n w. (Inl refused, Suc w))\<rparr>"

definition absent :: "nat callees" where
  "absent = (calm demo_store)\<lparr>client_Get := (\<lambda>n w. (Inl missing, Suc w))\<rparr>"





text \<open>
  Failing phases and writes: an invalid spec, a realm that cannot be created (with a
  status write that works and with one that does not), a finalizer that cannot be added,
  an external cluster of another major version.
\<close>

definition invalid :: "nat callees" where
  "invalid = (calm demo_ready)\<lparr>validateStore := (\<lambda>st w. (Some bad_port, Suc w))\<rparr>"

definition run_invalid :: "outcome \<times> nat state" where
  "run_invalid = reconcile invalid demo_request 0"

definition realmless :: "nat callees" where
  "realmless = (calm demo_ready)\<lparr>reconcileRealm := (\<lambda>c ip port w. (Some no_realm, Suc w))\<rparr>"

definition run_realmless :: "outcome \<times> nat state" where
  "run_realmless = reconcile realmless demo_request 0"

definition unsaved :: "nat callees" where
  "unsaved = realmless\<lparr>UpdateStatus := (\<lambda>st w. (Some conflict, Suc w))\<rparr>"

definition run_unsaved :: "outcome \<times> nat state" where
  "run_unsaved = reconcile unsaved demo_request 0"

definition readonly :: "nat callees" where
  "readonly = (calm demo_ready)\<lparr>AddFinalizerIfNotPresent := (\<lambda>st w. (Some conflict, Suc w))\<rparr>"

definition run_readonly :: "outcome \<times> nat state" where
  "run_readonly = reconcile readonly demo_request 0"

definition upgraded :: "nat callees" where
  "upgraded = (calm demo_ready)\<lparr>ValidateCephVersionsBetweenLocalAndExternalClusters := (\<lambda>ns v w. (Some mismatch, Suc w))\<rparr>"

definition run_upgraded :: "outcome \<times> nat state" where
  "run_upgraded = reconcileCreateObjectStore upgraded demo_external demo_ready (start 0)"

definition run_local :: "outcome \<times> nat state" where
  "run_local = reconcileCreateObjectStore (calm demo_ready) demo_local demo_ready (start 0)"


section \<open>How a run unfolds\<close>

text \<open>
  One lemma for each function of controller.go: every way the function can go, with the
  trace it leaves and the result it returns. The lemma for \<open>reconcile\<close> puts them
  together, so that a property of \<open>reconcile\<close> is checked case by case on explicit
  traces.
\<close>

lemma call_E:
  obtains a s' where "call f ev s = (a, s')" and "trace s' = trace s @ [ev a]"
  by (cases "f (world s)") (simp add: call_def)

lemma setFailedStatus_cases:
  assumes "setFailedStatus ext obj msg err s = (out, s')" and "Status obj \<noteq> None"
  obtains (failed) res where
    "out = Return Result_zero (Wrapf err ''%s'' [msg])"
    "trace s' = trace s @ status_events (with_phase ReconcileFailedStatus obj) res"
  using assms
  by (auto simp: setFailedStatus_def setPhase_def call_def logger_def status_events_def
      split: prod.splits option.splits)

lemma reconcileCreateObjectStore_run:
  assumes "reconcileCreateObjectStore ext r obj s = (out, s')"
  shows "(\<exists>err. External_Enable (cephClusterSpec r)
            \<and> trace s' = trace s @ [ev_ValidateCephVersions r obj (Some err)]
            \<and> out = Return Result_zero (Some (Wrapped err ''refusing to run new crd'' [])))
       \<or> (\<exists>res. trace s' = trace s @
              (if External_Enable (cephClusterSpec r) then [ev_ValidateCephVersions r obj None] else [])
              @ [E_createOrUpdateStore (createConfig ext r obj) res]
            \<and> out = Return Result_zero (Wrapf res ''failed to create object store %q'' [Name obj]))"
  using assms
  by (auto simp: reconcileCreateObjectStore_def createStore_def call_def Wrapf_def Let_def
      split: prod.splits option.splits if_splits)

lemma reconcileDelete_cases:
  assumes "reconcileDelete ext obj s = (out, s')"
  obtains
    (teardown_failed) err where
      "trace s' = trace s @ [E_logger Debug ''deleting store %q'' [AStr (Name obj)],
         E_deleteStore (deleteConfig obj) (Some err)]"
      "out = Return Result_zero (Some (Wrapped err ''failed to delete store %q. '' [Name obj]))"
  | (removed) res where
      "trace s' = trace s @ [E_logger Debug ''deleting store %q'' [AStr (Name obj)],
         E_deleteStore (deleteConfig obj) None, E_RemoveFinalizer obj res]"
      "out = Return Result_zero (Wrap res ''failed to remove finalizer'')"
  using assms
  by (auto simp: reconcileDelete_def call_def logger_def Wrapf_def Wrap_def Let_def
      split: prod.splits option.splits if_splits)

lemma reconcileUpdate_cases:
  assumes "reconcileUpdate ext r obj s = (out, s')" and "Status obj \<noteq> None"
  obtains
    (invalid) err where
      "trace s' = trace s @ [E_validateStore obj (Some err)]"
      "out = Return Result_zero (Some (Wrapped err ''invalid object store %q arguments'' [Name obj]))"
  | (service) err res where
      "trace s' = trace s @ to_service obj @ [E_reconcileService obj (Inl err)]
           @ status_events (with_phase ReconcileFailedStatus obj) res"
      "out = Return Result_zero (Some (Wrapped err ''%s'' [''failed to reconcile service'']))"
  | (pools) ip err res where
      "trace s' = trace s @ to_pools obj ip @ [ev_createPools obj (Some err)]
           @ status_events (with_phase ReconcileFailedStatus obj) res"
      "out = Return Result_zero (Some (Wrapped err ''%s'' [''failed to create object pools'']))"
  | (realm) ip err res where
      "trace s' = trace s @ to_realm obj ip @ [ev_reconcileRealm obj ip (Some err)]
           @ status_events (with_phase ReconcileFailedStatus obj) res"
      "out = Return Result_zero (Some (Wrapped err ''%s'' [''failed to create object store realm'']))"
  | (refused) ip err res where
      "External_Enable (cephClusterSpec r)"
      "trace s' = trace s @ to_workload obj ip @ [ev_ValidateCephVersions r obj (Some err)]
           @ status_events (with_phase ReconcileFailedStatus obj) res"
      "out = Return Result_zero (Some (Wrapped (Wrapped err ''refusing to run new crd'' [])
                ''%s'' [''failed to create object store deployments'']))"
  | (workload) ip err res where
      "trace s' = trace s @ to_create r obj ip @ [E_createOrUpdateStore (createConfig ext r obj) (Some err)]
           @ status_events (with_phase ReconcileFailedStatus obj) res"
      "out = Return Result_zero (Some (Wrapped (Wrapped err ''failed to create object store %q'' [Name obj])
                ''%s'' [''failed to create object store deployments'']))"
  | (ready) ip res where
      "trace s' = trace s @ to_create r obj ip @
           [E_createOrUpdateStore (createConfig ext r obj) None,
            E_UpdateStatus (with_phase ReadyStatus obj) res]
           @ (case res of None \<Rightarrow> [E_logger Debug ''done reconciling'' []] | Some _ \<Rightarrow> [])"
      "out = Return Result_zero (Wrap res ''failed to set status'')"
proof -
  note defs = reconcileUpdate_def Let_def Wrapf_def Wrap_def
  obtain v s1 where c1: "call (validateStore ext obj) (E_validateStore obj) s = (v, s1)"
    and t1: "trace s1 = trace s @ [E_validateStore obj v]"
    by (rule call_E)
  show thesis
  proof (cases v)
    case (Some err)
    with assms c1 t1 show thesis by (intro invalid[of err]) (auto simp: defs)
  next
    case None
    note v = this
    obtain sv s2 where c2: "call (reconcileService ext obj) (E_reconcileService obj)
          (logger Debug ''reconciling object store service'' [] s1) = (sv, s2)"
      and t2: "trace s2 = trace (logger Debug ''reconciling object store service'' [] s1)
          @ [E_reconcileService obj sv]"
      by (rule call_E)
    show thesis
    proof (cases sv)
      case (Inl err)
      with assms c1 v c2
      have "setFailedStatus ext obj ''failed to reconcile service'' (Some err) s2 = (out, s')"
        by (simp add: defs)
      from this assms(2) show thesis
        proof (cases rule: setFailedStatus_cases)
          case (failed res)
          with t1 t2 v Inl show thesis
            by (intro service[of err res]) (auto simp: logger_def Wrapf_def)
        qed
    next
      case (Inr ip)
      note sv = this
      obtain p s3 where c3: "call (createPools ext (objContext obj)
            (ToModel (MetadataPool (Spec obj)) []) (ToModel (DataPool (Spec obj)) []))
          (ev_createPools obj) (logger Debug ''reconciling object store pools'' [] s2) = (p, s3)"
        and t3: "trace s3 = trace (logger Debug ''reconciling object store pools'' [] s2)
          @ [ev_createPools obj p]"
        by (rule call_E)
      show thesis
      proof (cases p)
        case (Some err)
        with assms c1 v c2 sv c3
        have "setFailedStatus ext obj ''failed to create object pools'' (Some err) s3 = (out, s')"
          by (simp add: defs)
        from this assms(2) show thesis
          proof (cases rule: setFailedStatus_cases)
            case (failed res)
            with t1 t2 t3 v sv Some show thesis
              by (intro pools[of ip err res]) (auto simp: logger_def Wrapf_def)
          qed
      next
        case None
        note p = this
        obtain rl s4 where c4: "call (reconcileRealm ext (objContext obj) ip (Port (Gateway (Spec obj))))
            (ev_reconcileRealm obj ip) (logger Debug ''reconciling object store realms'' [] s3) = (rl, s4)"
          and t4: "trace s4 = trace (logger Debug ''reconciling object store realms'' [] s3)
            @ [ev_reconcileRealm obj ip rl]"
          by (rule call_E)
        show thesis
        proof (cases rl)
          case (Some err)
          with assms c1 v c2 sv c3 p c4
          have "setFailedStatus ext obj ''failed to create object store realm'' (Some err) s4 = (out, s')"
            by (simp add: defs)
          from this assms(2) show thesis
            proof (cases rule: setFailedStatus_cases)
              case (failed res)
              with t1 t2 t3 t4 v sv p Some show thesis
                by (intro realm[of ip err res]) (auto simp: logger_def Wrapf_def)
            qed
        next
          case None
          note rl = this
          obtain o5 s5 where c5: "reconcileCreateObjectStore ext r obj
              (logger Debug ''reconciling object store deployments'' [] s4) = (o5, s5)"
            by force
          have t5: "trace (logger Debug ''reconciling object store deployments'' [] s4)
              = trace s @ to_workload obj ip"
            using t1 t2 t3 t4 v sv p rl by (simp add: logger_def)
          from reconcileCreateObjectStore_run[OF c5] show thesis
          proof (elim disjE exE conjE)
            fix err
            assume e: "External_Enable (cephClusterSpec r)"
              and t: "trace s5 = trace (logger Debug ''reconciling object store deployments'' [] s4)
                  @ [ev_ValidateCephVersions r obj (Some err)]"
              and o: "o5 = Return Result_zero (Some (Wrapped err ''refusing to run new crd'' []))"
            with assms c1 v c2 sv c3 p c4 rl c5
            have "setFailedStatus ext obj ''failed to create object store deployments''
                (Some (Wrapped err ''refusing to run new crd'' [])) s5 = (out, s')"
              by (simp add: defs)
            from this assms(2) show thesis
              proof (cases rule: setFailedStatus_cases)
                case (failed res)
                with t t5 e show thesis
                  by (intro refused[of ip err res]) (auto simp: Wrapf_def)
              qed
          next
            fix res
            assume t: "trace s5 = trace (logger Debug ''reconciling object store deployments'' [] s4)
                  @ (if External_Enable (cephClusterSpec r) then [ev_ValidateCephVersions r obj None] else [])
                  @ [E_createOrUpdateStore (createConfig ext r obj) res]"
              and o: "o5 = Return Result_zero (Wrapf res ''failed to create object store %q'' [Name obj])"
            show thesis
            proof (cases res)
              case (Some err)
              with assms c1 v c2 sv c3 p c4 rl c5 o
              have "setFailedStatus ext obj ''failed to create object store deployments''
                  (Some (Wrapped err ''failed to create object store %q'' [Name obj])) s5 = (out, s')"
                by (simp add: defs)
              from this assms(2) show thesis
                proof (cases rule: setFailedStatus_cases)
                  case (failed res)
                  with t t5 Some show thesis
                    by (intro workload[of ip err res]) (auto simp: Wrapf_def)
                qed
            next
              case None
              note res = this
              from assms(2) obtain st where st: "Status obj = Some st" by auto
              obtain u s6 where c6: "call (UpdateStatus ext (with_phase ReadyStatus obj))
                  (E_UpdateStatus (with_phase ReadyStatus obj)) s5 = (u, s6)"
                and t6: "trace s6 = trace s5 @ [E_UpdateStatus (with_phase ReadyStatus obj) u]"
                by (rule call_E)
              from assms c1 v c2 sv c3 p c4 rl c5 o res st c6
              have "out = Return Result_zero (Wrap u ''failed to set status'')"
                  and "trace s' = trace s6 @ (case u of None \<Rightarrow> [E_logger Debug ''done reconciling'' []] | Some _ \<Rightarrow> [])"
                by (auto simp: defs setPhase_def logger_def split: option.splits)
              with t t5 t6 res show thesis
                by (intro ready[of ip u]) auto
            qed
          qed
        qed
      qed
    qed
  qed
qed

lemma reconcileCluster_cases:
  assumes "reconcileCluster ext request obj s = (out, s')"
  obtains
    (skip) spec resp res where
      "\<not> IsZero (DeletionTimestamp obj)"
      "trace s' = trace s @ [E_IsReadyToReconcile request (spec, False, False, resp), E_RemoveFinalizer obj res]"
      "out = Return Result_zero (Wrap res ''failed to remove finalizer'')"
  | (requeue) spec ex resp where
      "IsZero (DeletionTimestamp obj) \<or> ex"
      "trace s' = trace s @ [E_IsReadyToReconcile request (spec, False, ex, resp),
         E_logger Debug ''CephCluster resource not ready in namespace %q, retrying in %q.''
           [AStr (nn_Namespace request), AStr (NotReadyAfter ext)]]"
      "out = Return resp None"
  | (load_failed) spec ex resp err where
      "trace s' = trace s @ [E_IsReadyToReconcile request (spec, True, ex, resp),
         E_LoadClusterInfo (nn_Namespace request) (Inl err)]"
      "out = Return Result_zero (Some (Wrapped err ''failed to populate cluster info'' []))"
  | (add_failed) spec ex resp loaded v verr err where
      "trace s' = trace s @ to_finalizer ext request spec ex resp loaded v verr
         @ [E_AddFinalizerIfNotPresent obj (Some err)]"
      "out = Return Result_zero (Some (Wrapped err ''failed to add finalizer'' []))"
  | (deleting) spec ex resp loaded v verr s5 where
      "\<not> IsZero (DeletionTimestamp obj)"
      "trace s5 = trace s @ to_finalizer ext request spec ex resp loaded v verr
         @ [E_AddFinalizerIfNotPresent obj None]"
      "reconcileDelete ext obj s5 = (out, s')"
  | (updating) spec ex resp loaded v verr s5 where
      "IsZero (DeletionTimestamp obj)"
      "trace s5 = trace s @ to_finalizer ext request spec ex resp loaded v verr
         @ [E_AddFinalizerIfNotPresent obj None]"
      "reconcileUpdate ext (receiver spec loaded v) obj s5 = (out, s')"
proof -
  note defs = reconcileCluster_def Let_def Wrapf_def Wrap_def
  obtain g s1 where c1: "call (IsReadyToReconcile ext request) (E_IsReadyToReconcile request) s = (g, s1)"
    and t1: "trace s1 = trace s @ [E_IsReadyToReconcile request g]"
    by (rule call_E)
  obtain spec rdy ex resp where g: "g = (spec, rdy, ex, resp)"
    by (cases g) auto
  show thesis
  proof (cases rdy)
    case False
    note rdy = this
    show thesis
    proof (cases "\<not> IsZero (DeletionTimestamp obj) \<and> \<not> ex")
      case True
      obtain res s2 where c2: "call (RemoveFinalizer ext obj) (E_RemoveFinalizer obj) s1 = (res, s2)"
        and t2: "trace s2 = trace s1 @ [E_RemoveFinalizer obj res]"
        by (rule call_E)
      from assms c1 g rdy True c2 t1 t2 show thesis
        by (intro skip[of spec resp res]) (auto simp: defs split: option.splits)
    next
      case False
      with assms c1 g rdy t1 show thesis
        by (intro requeue[of ex spec resp]) (auto simp: defs logger_def)
    qed
  next
    case True
    note rdy = this
    obtain l s2 where c2: "call (LoadClusterInfo ext (nn_Namespace request))
          (E_LoadClusterInfo (nn_Namespace request)) s1 = (l, s2)"
      and t2: "trace s2 = trace s1 @ [E_LoadClusterInfo (nn_Namespace request) l]"
      by (rule call_E)
    show thesis
    proof (cases l)
      case (Inl err)
      with assms c1 g rdy c2 t1 t2 show thesis
        by (intro load_failed[of spec ex resp err]) (auto simp: defs)
    next
      case (Inr loaded)
      note l = this
      obtain vv s3 where c3: "call (LeastUptodateDaemonVersion ext (ci_Name loaded) (MonType ext))
            (E_LeastUptodateDaemonVersion (ci_Name loaded) (MonType ext)) s2 = (vv, s3)"
        and t3: "trace s3 = trace s2 @ [E_LeastUptodateDaemonVersion (ci_Name loaded) (MonType ext) vv]"
        by (rule call_E)
      obtain v verr where vv: "vv = (v, verr)"
        by (cases vv) auto
      define s4 where "s4 = (case verr of
          Some e \<Rightarrow> logger Error ''failed to retrieve current ceph %q version. %v''
                      [AStr (MonType ext), AErr e] s3
        | None \<Rightarrow> s3)"
      have t4: "trace s4 = trace s @ to_finalizer ext request spec ex resp loaded v verr"
        using t1 t2 t3 g rdy l vv by (simp add: s4_def logger_def split: option.splits)
      obtain a s5 where c5: "call (AddFinalizerIfNotPresent ext obj) (E_AddFinalizerIfNotPresent obj) s4 = (a, s5)"
        and t5: "trace s5 = trace s4 @ [E_AddFinalizerIfNotPresent obj a]"
        by (rule call_E)
      show thesis
      proof (cases a)
        case (Some err)
        with assms c1 g rdy c2 l c3 vv c5 t4 t5 show thesis
          by (intro add_failed[of spec ex resp loaded v verr err]) (auto simp: defs s4_def)
      next
        case None
        note a = this
        show thesis
        proof (cases "IsZero (DeletionTimestamp obj)")
          case True
          with assms c1 g rdy c2 l c3 vv c5 a
          have "reconcileUpdate ext (receiver spec loaded v) obj s5 = (out, s')"
            by (simp add: defs s4_def)
          with True t4 t5 a show thesis
            by (intro updating[of s5 spec ex resp loaded v verr]) auto
        next
          case False
          with assms c1 g rdy c2 l c3 vv c5 a
          have "reconcileDelete ext obj s5 = (out, s')"
            by (simp add: defs s4_def)
          with False t4 t5 a show thesis
            by (intro deleting[of s5 spec ex resp loaded v verr]) auto
        qed
      qed
    qed
  qed
qed

lemma reconcile_fetch:
  assumes "reconcile ext request w = (out, s)"
  obtains
    (get_failed) err where
      "\<not> IsNotFound err"
      "trace s = [E_Get request (Inl err)]"
      "out = Return Result_zero (Some (Wrapped err ''failed to get cephObjectStore'' []))"
  | (not_found) err where
      "IsNotFound err"
      "trace s = [E_Get request (Inl err), E_logger Debug
          ''cephObjectStore resource not found. Ignoring since object must be deleted.'' []]"
      "out = Return Result_zero None"
  | (created_failed) fetched err where
      "Status fetched = None"
      "trace s = [E_Get request (Inr fetched), E_UpdateStatus (initial fetched) (Some err)]"
      "out = Return Result_zero (Some (Wrapped err ''failed to set status'' []))"
  | (fetched) s2 fetched where
      "trace s2 = fetched_events request fetched"
      "reconcileCluster ext request (initial fetched) s2 = (out, s)"
proof -
  note defs = reconcile_def Let_def Wrapf_def Wrap_def
  obtain g s1 where c1: "call (client_Get ext request) (E_Get request) (start w) = (g, s1)"
    and t1: "trace s1 = trace (start w) @ [E_Get request g]"
    by (rule call_E)
  show thesis
  proof (cases g)
    case (Inl err)
    with assms c1 t1 show thesis
      by (cases "IsNotFound err")
        (auto simp: defs start_def logger_def intro: get_failed[of err] not_found[of err])
  next
    case (Inr fetched)
    note g = this
    show thesis
    proof (cases "Status fetched = None")
      case False
      with assms c1 t1 g show thesis
        by (intro fetched[of s1 fetched]) (auto simp: defs start_def)
    next
      case True
      obtain u s2 where c2: "call (UpdateStatus ext (initial fetched)) (E_UpdateStatus (initial fetched)) s1 = (u, s2)"
        and t2: "trace s2 = trace s1 @ [E_UpdateStatus (initial fetched) u]"
        by (rule call_E)
      show thesis
      proof (cases u)
        case (Some err)
        with assms c1 t1 g True c2 t2 show thesis
          by (intro created_failed[of fetched err]) (auto simp: defs start_def)
      next
        case None
        with assms c1 t1 g True c2 t2 show thesis
          by (intro fetched[of s2 fetched]) (auto simp: defs start_def)
      qed
    qed
  qed
qed

lemma initial_Status: "Status (initial fetched) \<noteq> None"
  by simp

lemma reconcile_cases:
  assumes "reconcile ext request w = (out, s)"
  obtains
    (get_failed) err where
      "trace s = [E_Get request (Inl err)]"
      "\<not> IsNotFound err"
      "out = Return Result_zero (Some (Wrapped err ''failed to get cephObjectStore'' []))"
  | (not_found) err where
      "trace s = [E_Get request (Inl err), E_logger Debug
          ''cephObjectStore resource not found. Ignoring since object must be deleted.'' []]"
      "IsNotFound err"
      "out = Return Result_zero None"
  | (created_failed) fetched err where
      "trace s = [E_Get request (Inr fetched), E_UpdateStatus (initial fetched) (Some err)]"
      "Status fetched = None"
      "out = Return Result_zero (Some (Wrapped err ''failed to set status'' []))"
  | (skip) fetched spec resp res where
      "trace s = fetched_events request fetched
         @ [E_IsReadyToReconcile request (spec, False, False, resp),
            E_RemoveFinalizer (initial fetched) res]"
      "\<not> IsZero (DeletionTimestamp fetched)"
      "out = Return Result_zero (Wrap res ''failed to remove finalizer'')"
  | (requeue) fetched spec ex resp where
      "trace s = fetched_events request fetched
         @ [E_IsReadyToReconcile request (spec, False, ex, resp),
            E_logger Debug ''CephCluster resource not ready in namespace %q, retrying in %q.''
              [AStr (nn_Namespace request), AStr (NotReadyAfter ext)]]"
      "IsZero (DeletionTimestamp fetched) \<or> ex"
      "out = Return resp None"
  | (load_failed) fetched spec ex resp err where
      "trace s = fetched_events request fetched
         @ [E_IsReadyToReconcile request (spec, True, ex, resp),
            E_LoadClusterInfo (nn_Namespace request) (Inl err)]"
      "out = Return Result_zero (Some (Wrapped err ''failed to populate cluster info'' []))"
  | (add_failed) fetched spec ex resp loaded v verr err where
      "trace s = fetched_events request fetched
         @ to_finalizer ext request spec ex resp loaded v verr
         @ [E_AddFinalizerIfNotPresent (initial fetched) (Some err)]"
      "out = Return Result_zero (Some (Wrapped err ''failed to add finalizer'' []))"
  | (teardown_failed) fetched spec ex resp loaded v verr err where
      "trace s = ready_events ext request fetched spec ex resp loaded v verr
         @ [E_logger Debug ''deleting store %q'' [AStr (Name fetched)],
            E_deleteStore (deleteConfig (initial fetched)) (Some err)]"
      "\<not> IsZero (DeletionTimestamp fetched)"
      "out = Return Result_zero (Some (Wrapped err ''failed to delete store %q. '' [Name fetched]))"
  | (removed) fetched spec ex resp loaded v verr res where
      "trace s = ready_events ext request fetched spec ex resp loaded v verr
         @ [E_logger Debug ''deleting store %q'' [AStr (Name fetched)],
            E_deleteStore (deleteConfig (initial fetched)) None,
            E_RemoveFinalizer (initial fetched) res]"
      "\<not> IsZero (DeletionTimestamp fetched)"
      "out = Return Result_zero (Wrap res ''failed to remove finalizer'')"
  | (invalid) fetched spec ex resp loaded v verr err where
      "trace s = ready_events ext request fetched spec ex resp loaded v verr
         @ [E_validateStore (initial fetched) (Some err)]"
      "IsZero (DeletionTimestamp fetched)"
      "out = Return Result_zero (Some (Wrapped err ''invalid object store %q arguments'' [Name fetched]))"
  | (service) fetched spec ex resp loaded v verr err res where
      "trace s = ready_events ext request fetched spec ex resp loaded v verr
         @ to_service (initial fetched) @ [E_reconcileService (initial fetched) (Inl err)]
         @ status_events (with_phase ReconcileFailedStatus (initial fetched)) res"
      "IsZero (DeletionTimestamp fetched)"
      "out = Return Result_zero (Some (Wrapped err ''%s'' [''failed to reconcile service'']))"
  | (pools) fetched spec ex resp loaded v verr ip err res where
      "trace s = ready_events ext request fetched spec ex resp loaded v verr
         @ to_pools (initial fetched) ip @ [ev_createPools (initial fetched) (Some err)]
         @ status_events (with_phase ReconcileFailedStatus (initial fetched)) res"
      "IsZero (DeletionTimestamp fetched)"
      "out = Return Result_zero (Some (Wrapped err ''%s'' [''failed to create object pools'']))"
  | (realm) fetched spec ex resp loaded v verr ip err res where
      "trace s = ready_events ext request fetched spec ex resp loaded v verr
         @ to_realm (initial fetched) ip @ [ev_reconcileRealm (initial fetched) ip (Some err)]
         @ status_events (with_phase ReconcileFailedStatus (initial fetched)) res"
      "IsZero (DeletionTimestamp fetched)"
      "out = Return Result_zero (Some (Wrapped err ''%s'' [''failed to create object store realm'']))"
  | (refused) fetched spec ex resp loaded v verr ip err res where
      "trace s = ready_events ext request fetched spec ex resp loaded v verr
         @ to_workload (initial fetched) ip
         @ [ev_ValidateCephVersions (receiver spec loaded v) (initial fetched) (Some err)]
         @ status_events (with_phase ReconcileFailedStatus (initial fetched)) res"
      "IsZero (DeletionTimestamp fetched)"
      "External_Enable spec"
      "out = Return Result_zero (Some (Wrapped (Wrapped err ''refusing to run new crd'' [])
                ''%s'' [''failed to create object store deployments'']))"
  | (workload) fetched spec ex resp loaded v verr ip err res where
      "trace s = ready_events ext request fetched spec ex resp loaded v verr
         @ to_create (receiver spec loaded v) (initial fetched) ip
         @ [E_createOrUpdateStore (createConfig ext (receiver spec loaded v) (initial fetched)) (Some err)]
         @ status_events (with_phase ReconcileFailedStatus (initial fetched)) res"
      "IsZero (DeletionTimestamp fetched)"
      "out = Return Result_zero (Some (Wrapped
                (Wrapped err ''failed to create object store %q'' [Name fetched])
                ''%s'' [''failed to create object store deployments'']))"
  | (ready) fetched spec ex resp loaded v verr ip res where
      "trace s = ready_events ext request fetched spec ex resp loaded v verr
         @ to_create (receiver spec loaded v) (initial fetched) ip
         @ [E_createOrUpdateStore (createConfig ext (receiver spec loaded v) (initial fetched)) None,
            E_UpdateStatus (with_phase ReadyStatus (initial fetched)) res]
         @ (case res of None \<Rightarrow> [E_logger Debug ''done reconciling'' []] | Some _ \<Rightarrow> [])"
      "IsZero (DeletionTimestamp fetched)"
      "out = Return Result_zero (Wrap res ''failed to set status'')"
  using assms
proof (cases rule: reconcile_fetch)
  case (get_failed err)
  then show thesis by (intro that(1)[of err]) auto
next
  case (not_found err)
  then show thesis by (intro that(2)[of err]) auto
next
  case (created_failed fetched err)
  then show thesis by (intro that(3)[of fetched err]) auto
next
  case (fetched s2 fetched)
  note pre = fetched(1)
  from fetched(2) show thesis
  proof (cases rule: reconcileCluster_cases)
    case (skip spec resp res)
    with pre show thesis by (intro that(4)[of fetched spec resp res]) (auto split: if_splits)
  next
    case (requeue spec ex resp)
    with pre show thesis by (intro that(5)[of fetched spec ex resp]) (auto split: if_splits)
  next
    case (load_failed spec ex resp err)
    with pre show thesis by (intro that(6)[of fetched spec ex resp err]) (auto split: if_splits)
  next
    case (add_failed spec ex resp loaded v verr err)
    with pre show thesis
      by (intro that(7)[of fetched spec ex resp loaded v verr err]) (auto split: if_splits)
  next
    case (deleting spec ex resp loaded v verr s5)
    note del = deleting(1) and t5 = deleting(2)
    from deleting(3) show thesis
    proof (cases rule: reconcileDelete_cases)
      case (teardown_failed err)
      with pre del t5 show thesis
        by (intro that(8)[of fetched spec ex resp loaded v verr err]) (auto split: if_splits)
    next
      case (removed res)
      with pre del t5 show thesis
        by (intro that(9)[of fetched spec ex resp loaded v verr res]) (auto split: if_splits)
    qed
  next
    case (updating spec ex resp loaded v verr s5)
    note upd = updating(1) and t5 = updating(2)
    from updating(3) initial_Status[of fetched] show thesis
    proof (cases rule: reconcileUpdate_cases)
      case (invalid err)
      with pre upd t5 show thesis
        by (intro that(10)[of fetched spec ex resp loaded v verr err]) (auto split: if_splits)
    next
      case (service err res)
      with pre upd t5 show thesis
        by (intro that(11)[of fetched spec ex resp loaded v verr err res]) (auto split: if_splits)
    next
      case (pools ip err res)
      with pre upd t5 show thesis
        by (intro that(12)[of fetched spec ex resp loaded v verr ip err res]) (auto split: if_splits)
    next
      case (realm ip err res)
      with pre upd t5 show thesis
        by (intro that(13)[of fetched spec ex resp loaded v verr ip err res]) (auto split: if_splits)
    next
      case (refused ip err res)
      with pre upd t5 show thesis
        by (intro that(14)[of fetched spec ex resp loaded v verr ip err res]) (auto split: if_splits)
    next
      case (workload ip err res)
      with pre upd t5 show thesis
        by (intro that(15)[of fetched spec ex resp loaded v verr ip err res]) (auto split: if_splits)
    next
      case (ready ip res)
      with pre upd t5 show thesis
        by (intro that(16)[of fetched spec ex resp loaded v verr ip res]) (auto split: if_splits)
    qed
  qed
qed

lemmas trace_simps = status_events_def suffix_Cons sublist_Cons_right is_phase_def

lemma phases_append: "phases (xs @ ys) = phases xs @ phases ys"
  by (induction xs) (auto split: option.splits)

lemma wraps_refl: "wraps e e"
  by (cases e) auto

text \<open>\<open>reconcile\<close> returns on every input: no path assigns through a nil \<open>Status\<close>.\<close>

lemma reconcile_returns: "\<exists>resp err. fst (reconcile ext request w) = Return resp err"
proof -
  obtain out s where run: "reconcile ext request w = (out, s)"
    by force
  from run have "\<exists>resp err. out = Return resp err"
    by (cases rule: reconcile_cases) auto
  with run show ?thesis by simp
qed

text \<open>Evaluating the concrete runs.\<close>

lemmas run_defs = reconcile_def reconcileCluster_def reconcileDelete_def reconcileUpdate_def
  reconcileCreateObjectStore_def createStore_def setFailedStatus_def setPhase_def call_def
  logger_def start_def Wrap_def Wrapf_def Let_def IsZero_def createConfig_def deleteConfig_def

lemmas demo_defs = calm_def demo_request_def demo_store_def demo_created_def demo_ready_def
  demo_failed_def demo_deleted_def demo_spec_def demo_info_def demo_version_def
  demo_external_def demo_local_def requeue10_def Result_zero_def
  Created_def ReadyStatus_def ReconcileFailedStatus_def
  busy_def refused_def missing_def no_secret_def no_versions_def bad_port_def no_realm_def
  conflict_def mismatch_def

lemmas eval = run_defs demo_defs trace_simps written_phase_def

section \<open>The claims\<close>

text \<open>
  In each theorem \<open>(out, s)\<close> is what a call of \<open>reconcile\<close> returns: the Go results and
  the final state, whose trace lists the calls of the run in order. A premise such as
  \<open>E_Get request (Inr obj) \<in> set (trace s)\<close> says that the run fetched the record \<open>obj\<close>;
  \<open>E_IsReadyToReconcile request (spec, ready, exists, resp)\<close> in the trace says what
  the readiness gate answered.
\<close>

text \<open>
  C1. On a call for a record with a deletion timestamp and a ready cluster, teardown
  (\<open>deleteStore\<close>) comes before the removal of the finalizer: a removal of the finalizer,
  wherever the trace has one, is the last call of the run and follows directly on a
  teardown that succeeded. If the teardown fails the call returns the wrapped error and
  the trace has no removal of the finalizer. If the teardown succeeds the removal is
  called next and the call returns what the removal gives. A return with a nil error is
  \<open>reconcile.Result{}\<close> (done, no requeue) and ends a trace of a successful teardown
  followed by a successful removal.
\<close>

theorem teardown_before_finalizer_removal:
  assumes "reconcile ext request w = (out, s)"
    and "E_Get request (Inr obj) \<in> set (trace s)"
    and "\<not> IsZero (DeletionTimestamp obj)"
    and "E_IsReadyToReconcile request (spec, True, ex, resp) \<in> set (trace s)"
  shows "(\<forall>st res. E_RemoveFinalizer st res \<in> set (trace s) \<longrightarrow>
            (\<exists>cfg. suffix [E_deleteStore cfg None, E_RemoveFinalizer st res] (trace s)))
       \<and> (\<forall>cfg err. E_deleteStore cfg (Some err) \<in> set (trace s) \<longrightarrow>
            out = Return Result_zero (Some (Wrapped err ''failed to delete store %q. '' [Name obj]))
            \<and> (\<forall>e\<in>set (trace s). \<not> is_finalizer_removal e))
       \<and> (\<forall>cfg. E_deleteStore cfg None \<in> set (trace s) \<longrightarrow>
            (\<exists>st res. suffix [E_deleteStore cfg None, E_RemoveFinalizer st res] (trace s)
               \<and> out = Return Result_zero (Wrap res ''failed to remove finalizer'')))
       \<and> (\<forall>rr. out = Return rr None \<longrightarrow> rr = Result_zero
            \<and> (\<exists>cfg st. suffix [E_deleteStore cfg None, E_RemoveFinalizer st None] (trace s)))"
  using assms
  by (cases rule: reconcile_cases)
     (auto simp: trace_simps Wrap_def Wrapf_def split: if_splits option.splits)

theorem teardown_before_finalizer_removal_witness:
  "E_Get demo_request (Inr demo_deleted) \<in> set (trace (snd run_deleted))
   \<and> \<not> IsZero (DeletionTimestamp demo_deleted)
   \<and> E_IsReadyToReconcile demo_request (demo_spec, True, True, Result_zero)
        \<in> set (trace (snd run_deleted))
   \<and> E_RemoveFinalizer demo_deleted None \<in> set (trace (snd run_deleted))
   \<and> suffix [E_deleteStore (deleteConfig demo_deleted) None, E_RemoveFinalizer demo_deleted None]
        (trace (snd run_deleted))
   \<and> fst run_deleted = Return Result_zero None
   \<and> E_Get demo_request (Inr demo_deleted) \<in> set (trace (snd run_stuck))
   \<and> E_IsReadyToReconcile demo_request (demo_spec, True, True, Result_zero)
        \<in> set (trace (snd run_stuck))
   \<and> E_deleteStore (deleteConfig demo_deleted) (Some busy) \<in> set (trace (snd run_stuck))
   \<and> fst run_stuck = Return Result_zero (Some (Wrapped busy ''failed to delete store %q. '' [''my-store'']))
   \<and> filter is_finalizer_removal (trace (snd run_stuck)) = []"
proof -
  have run1: "reconcile (calm demo_deleted) demo_request 0 = (fst run_deleted, snd run_deleted)"
    by (simp add: run_deleted_def)
  have run2: "reconcile stuck demo_request 0 = (fst run_stuck, snd run_stuck)"
    by (simp add: run_stuck_def)
  have a1: "E_Get demo_request (Inr demo_deleted) \<in> set (trace (snd run_deleted))"
    and a3: "E_IsReadyToReconcile demo_request (demo_spec, True, True, Result_zero)
        \<in> set (trace (snd run_deleted))"
    by (simp_all add: run_deleted_def eval)
  have b1: "E_Get demo_request (Inr demo_deleted) \<in> set (trace (snd run_stuck))"
    and b3: "E_IsReadyToReconcile demo_request (demo_spec, True, True, Result_zero)
        \<in> set (trace (snd run_stuck))"
    by (simp_all add: run_stuck_def stuck_def eval)
  have a2: "\<not> IsZero (DeletionTimestamp demo_deleted)"
    by (simp add: eval)
  from teardown_before_finalizer_removal[OF run1 a1 a2 a3]
    teardown_before_finalizer_removal[OF run2 b1 a2 b3] a1 a2 a3 b1 b3
  show ?thesis
    by (simp add: run_deleted_def run_stuck_def stuck_def eval)
qed

text \<open>
  C2, as amended. A failure of any call of a creation or update phase (spec validation,
  service, pools, realm, workload) ends the phases of the run: the failing call is the
  last phase call of the trace, and \<open>reconcile\<close> returns \<open>reconcile.Result{}\<close> with a
  non-nil error that wraps the failure. When the phase is not the validation, the failing
  call is followed by one status write of a record whose Phase is \<open>ReconcileFailed\<close>, and
  nothing else but the log line of that write when the write itself failed. The status
  has no message field, and a failed status write is logged, not returned.
\<close>

theorem phase_failure_sets_failed_status:
  assumes "reconcile ext request w = (out, s)"
    and "e \<in> set (trace s)"
    and "is_phase e"
    and "failure e = Some err"
  shows "(\<exists>err'. out = Return Result_zero (Some err') \<and> wraps err' err)
       \<and> last (filter is_phase (trace s)) = e
       \<and> (phase_of e \<noteq> Some Validation \<longrightarrow>
            (\<exists>st. written_phase st = Some ReconcileFailedStatus
               \<and> (suffix [e, E_UpdateStatus st None] (trace s)
                  \<or> (\<exists>se. suffix [e, E_UpdateStatus st (Some se),
                          E_logger Error ''failed to set status. %v'' [AErr se]] (trace s)))))"
proof -
  have mem: "e \<in> set (filter (\<lambda>x. is_phase x \<and> failure x \<noteq> None) (trace s))"
    using assms(2-) by simp
  from assms(1) mem assms(4) show ?thesis
    by (cases rule: reconcile_cases)
       (auto simp: trace_simps wraps_refl Wrap_def Wrapf_def written_phase_def
             split: if_splits option.splits)
qed

theorem phase_failure_sets_failed_status_witness:
  "E_reconcileRealm (NewContext ''my-store'' ''rook-ceph'') ''10.0.0.7'' 80 (Some no_realm)
        \<in> set (trace (snd run_realmless))
   \<and> is_phase (E_reconcileRealm (NewContext ''my-store'' ''rook-ceph'') ''10.0.0.7'' 80 (Some no_realm))
   \<and> failure (E_reconcileRealm (NewContext ''my-store'' ''rook-ceph'') ''10.0.0.7'' 80 (Some no_realm))
        = Some no_realm
   \<and> fst run_realmless
        = Return Result_zero (Some (Wrapped no_realm ''%s'' [''failed to create object store realm'']))
   \<and> suffix [E_reconcileRealm (NewContext ''my-store'' ''rook-ceph'') ''10.0.0.7'' 80 (Some no_realm),
              E_UpdateStatus demo_failed None] (trace (snd run_realmless))"
proof -
  let ?e = "E_reconcileRealm (NewContext ''my-store'' ''rook-ceph'') ''10.0.0.7'' 80 (Some no_realm)"
  have run: "reconcile realmless demo_request 0 = (fst run_realmless, snd run_realmless)"
    by (simp add: run_realmless_def)
  have h1: "?e \<in> set (trace (snd run_realmless))"
    by (simp add: run_realmless_def realmless_def eval)
  have h2: "is_phase ?e"
    by (simp add: is_phase_def)
  have h3: "failure ?e = Some no_realm"
    by simp
  from phase_failure_sets_failed_status[OF run h1 h2 h3] h1 h2 h3 show ?thesis
    by (simp add: run_realmless_def realmless_def eval)
qed

text \<open>
  C2 as stated fails on the validation phase: when \<open>validateStore\<close> rejects the spec,
  \<open>reconcile\<close> returns the wrapped error at line 229 without a call of \<open>setFailedStatus\<close>.
  The run below fetches a record whose Phase is \<open>Ready\<close>; its trace ends with the failed
  validation and holds no status write at all.
\<close>

theorem validation_failure_writes_no_status:
  "fst run_invalid
     = Return Result_zero (Some (Wrapped bad_port ''invalid object store %q arguments'' [''my-store'']))
   \<and> trace (snd run_invalid)
     = [E_Get demo_request (Inr demo_ready),
        E_IsReadyToReconcile demo_request (demo_spec, True, True, Result_zero),
        E_LoadClusterInfo ''rook-ceph'' (Inr demo_info),
        E_LeastUptodateDaemonVersion ''rook-ceph'' ''mon'' (demo_version, None),
        E_AddFinalizerIfNotPresent demo_ready None,
        E_validateStore demo_ready (Some bad_port)]
   \<and> phase_of (E_validateStore demo_ready (Some bad_port)) = Some Validation
   \<and> failure (E_validateStore demo_ready (Some bad_port)) = Some bad_port
   \<and> filter is_status_write (trace (snd run_invalid)) = []"
  by (simp add: run_invalid_def invalid_def eval)



text \<open>
  C4. The phase calls of every run come in the order validation, service, pools, realm,
  workload, each phase at most once and none before the one ahead of it was called; every
  phase call but the last of the run succeeded, so a phase is only called after all
  earlier phase calls succeeded. A call of \<open>reconcileRealm\<close> is given the address that an
  earlier call of \<open>reconcileService\<close> returned. A run that called a phase and returns
  \<open>reconcile.Result{}\<close> with a nil error went through all the phases.
\<close>

theorem phases_in_order:
  assumes "reconcile ext request w = (out, s)"
  shows "prefix (remdups_adj (phases (trace s))) [Validation, Endpoint, Pools, Realm, Workload]
       \<and> (\<forall>e\<in>set (butlast (filter is_phase (trace s))). failure e = None)
       \<and> (\<forall>ctx ip port res. E_reconcileRealm ctx ip port res \<in> set (trace s) \<longrightarrow>
            (\<exists>st. E_reconcileService st (Inr ip)
                 \<in> set (takeWhile (\<lambda>e. phase_of e \<noteq> Some Realm) (trace s))))
       \<and> (out = Return Result_zero None \<and> phases (trace s) \<noteq> [] \<longrightarrow>
            remdups_adj (phases (trace s)) = [Validation, Endpoint, Pools, Realm, Workload])"
  using assms
  by (cases rule: reconcile_cases)
     (auto simp: trace_simps phases_append Wrap_def Wrapf_def split: if_splits option.splits)

theorem phases_in_order_witness:
  "fst run_calm = Return Result_zero None
   \<and> phases (trace (snd run_calm)) = [Validation, Endpoint, Pools, Realm, Workload]
   \<and> map failure (butlast (filter is_phase (trace (snd run_calm)))) = [None, None, None, None]
   \<and> E_reconcileRealm (NewContext ''my-store'' ''rook-ceph'') ''10.0.0.7'' 80 None
        \<in> set (trace (snd run_calm))
   \<and> E_reconcileService demo_created (Inr ''10.0.0.7'')
        \<in> set (takeWhile (\<lambda>e. phase_of e \<noteq> Some Realm) (trace (snd run_calm)))"
proof -
  have run: "reconcile (calm demo_store) demo_request 0 = (fst run_calm, snd run_calm)"
    by (simp add: run_calm_def)
  from phases_in_order[OF run] show ?thesis
    by (simp add: run_calm_def eval)
qed

text \<open>
  C5. When the readiness gate answers that the cluster is not ready, and the record has
  no deletion timestamp or the cluster exists, the call returns the result the gate gave
  with a nil error, and no call of the run is a call of a creation or update phase, a
  teardown, or a write of the finalizer.
\<close>

theorem not_ready_requeues:
  assumes "reconcile ext request w = (out, s)"
    and "E_Get request (Inr obj) \<in> set (trace s)"
    and "E_IsReadyToReconcile request (spec, False, ex, resp) \<in> set (trace s)"
    and "IsZero (DeletionTimestamp obj) \<or> ex"
  shows "out = Return resp None
       \<and> (\<forall>e\<in>set (trace s). \<not> is_phase e \<and> \<not> is_teardown e \<and> \<not> is_finalizer_write e)"
  using assms
  by (cases rule: reconcile_cases) (auto simp: trace_simps split: if_splits option.splits)

theorem not_ready_requeues_witness:
  "E_Get demo_request (Inr demo_store) \<in> set (trace (snd run_waiting))
   \<and> E_IsReadyToReconcile demo_request (demo_spec, False, True, requeue10)
        \<in> set (trace (snd run_waiting))
   \<and> (IsZero (DeletionTimestamp demo_store) \<or> True)
   \<and> fst run_waiting = Return requeue10 None
   \<and> filter (\<lambda>e. is_phase e \<or> is_teardown e \<or> is_finalizer_write e)
        (trace (snd run_waiting)) = []"
proof -
  have run: "reconcile waiting demo_request 0 = (fst run_waiting, snd run_waiting)"
    by (simp add: run_waiting_def)
  have h1: "E_Get demo_request (Inr demo_store) \<in> set (trace (snd run_waiting))"
    and h2: "E_IsReadyToReconcile demo_request (demo_spec, False, True, requeue10)
        \<in> set (trace (snd run_waiting))"
    by (simp_all add: run_waiting_def waiting_def eval)
  have h3: "IsZero (DeletionTimestamp demo_store) \<or> True"
    by simp
  from not_ready_requeues[OF run h1 h2 h3] h1 h2 h3 show ?thesis
    by (simp add: run_waiting_def waiting_def eval)
qed

text \<open>
  C6. On a run that reached the workload phase and in which no phase call failed, the
  run ends with a status write of the fetched record with Phase \<open>Ready\<close>. When that write
  succeeds the call logs that it is done and returns \<open>reconcile.Result{}\<close> with a nil
  error; when it fails the call returns the wrapped error of the write.
\<close>

theorem success_sets_ready:
  assumes "reconcile ext request w = (out, s)"
    and "Workload \<in> set (phases (trace s))"
    and "\<forall>e\<in>set (trace s). is_phase e \<longrightarrow> failure e = None"
  shows "\<exists>fetched res.
           E_Get request (Inr fetched) \<in> set (trace s)
         \<and> suffix (E_UpdateStatus (fetched\<lparr>Status := Some \<lparr>Phase = ReadyStatus\<rparr>\<rparr>) res #
              (case res of None \<Rightarrow> [E_logger Debug ''done reconciling'' []] | Some _ \<Rightarrow> []))
             (trace s)
         \<and> (res = None \<longrightarrow> out = Return Result_zero None)
         \<and> (\<forall>err. res = Some err \<longrightarrow>
               out = Return Result_zero (Some (Wrapped err ''failed to set status'' [])))"
  using assms
  by (cases rule: reconcile_cases)
     (auto simp: trace_simps phases_append Wrap_def Wrapf_def split: if_splits option.splits)

theorem success_sets_ready_witness:
  "Workload \<in> set (phases (trace (snd run_calm)))
   \<and> filter (\<lambda>e. is_phase e \<and> failure e \<noteq> None) (trace (snd run_calm)) = []
   \<and> E_Get demo_request (Inr demo_store) \<in> set (trace (snd run_calm))
   \<and> suffix [E_UpdateStatus demo_ready None, E_logger Debug ''done reconciling'' []]
        (trace (snd run_calm))
   \<and> fst run_calm = Return Result_zero None"
proof -
  have run: "reconcile (calm demo_store) demo_request 0 = (fst run_calm, snd run_calm)"
    by (simp add: run_calm_def)
  have h1: "Workload \<in> set (phases (trace (snd run_calm)))"
    and h2: "\<forall>e\<in>set (trace (snd run_calm)). is_phase e \<longrightarrow> failure e = None"
    by (simp_all add: run_calm_def eval)
  from success_sets_ready[OF run h1 h2] h1 show ?thesis
    by (simp add: run_calm_def eval)
qed

text \<open>
  C7, as amended. Whenever a status write or a finalizer write of a run fails,
  \<open>reconcile\<close> returns \<open>reconcile.Result{}\<close> with a non-nil error. That error wraps the
  failure of the write, except for the write of the \<open>ReconcileFailed\<close> status in
  \<open>setFailedStatus\<close>: there the failure of the write is logged and the error returned is
  the one of the failed phase.
\<close>

theorem write_failure_returns_error:
  assumes "reconcile ext request w = (out, s)"
    and "e \<in> set (trace s)"
    and "is_status_write e \<or> is_finalizer_write e"
    and "failure e = Some err"
  shows "\<exists>err'. out = Return Result_zero (Some err')
         \<and> (wraps err' err
            \<or> (\<exists>st. e = E_UpdateStatus st (Some err)
                  \<and> written_phase st = Some ReconcileFailedStatus
                  \<and> E_logger Error ''failed to set status. %v'' [AErr err] \<in> set (trace s)))"
proof -
  have mem: "e \<in> set (filter (\<lambda>x. (is_status_write x \<or> is_finalizer_write x) \<and> failure x \<noteq> None)
      (trace s))"
    using assms(2-) by simp
  from assms(1) mem assms(4) show ?thesis
    by (cases rule: reconcile_cases)
       (auto simp: status_events_def wraps_refl Wrap_def Wrapf_def written_phase_def
             split: if_splits option.splits)
qed

theorem write_failure_returns_error_witness:
  "E_AddFinalizerIfNotPresent demo_ready (Some conflict) \<in> set (trace (snd run_readonly))
   \<and> (is_status_write (E_AddFinalizerIfNotPresent demo_ready (Some conflict))
        \<or> is_finalizer_write (E_AddFinalizerIfNotPresent demo_ready (Some conflict)))
   \<and> failure (E_AddFinalizerIfNotPresent demo_ready (Some conflict)) = Some conflict
   \<and> fst run_readonly = Return Result_zero (Some (Wrapped conflict ''failed to add finalizer'' []))
   \<and> wraps (Wrapped conflict ''failed to add finalizer'' []) conflict"
proof -
  let ?e = "E_AddFinalizerIfNotPresent demo_ready (Some conflict)"
  have run: "reconcile readonly demo_request 0 = (fst run_readonly, snd run_readonly)"
    by (simp add: run_readonly_def)
  have h1: "?e \<in> set (trace (snd run_readonly))"
    by (simp add: run_readonly_def readonly_def eval)
  have h2: "is_status_write ?e \<or> is_finalizer_write ?e"
    by simp
  have h3: "failure ?e = Some conflict"
    by simp
  from write_failure_returns_error[OF run h1 h2 h3] h1 h2 h3 show ?thesis
    by (simp add: run_readonly_def readonly_def eval)
qed

text \<open>
  C7 as stated fails in \<open>setFailedStatus\<close>. In the run below the realm phase fails and
  the status write that follows fails too; the call returns the error of the realm phase,
  which does not wrap the error of the write: that one is only logged (lines 308 to 311).
\<close>

theorem failed_status_write_not_returned:
  "E_UpdateStatus demo_failed (Some conflict) \<in> set (trace (snd run_unsaved))
   \<and> is_status_write (E_UpdateStatus demo_failed (Some conflict))
   \<and> failure (E_UpdateStatus demo_failed (Some conflict)) = Some conflict
   \<and> fst run_unsaved
       = Return Result_zero (Some (Wrapped no_realm ''%s'' [''failed to create object store realm'']))
   \<and> \<not> wraps (Wrapped no_realm ''%s'' [''failed to create object store realm'']) conflict
   \<and> last (trace (snd run_unsaved)) = E_logger Error ''failed to set status. %v'' [AErr conflict]"
  by (simp add: run_unsaved_def unsaved_def realmless_def eval)



text \<open>
  C9. \<open>reconcileCreateObjectStore\<close>, started on an empty trace. With the external mode
  enabled its first call is the version validation; when that fails the function returns
  the wrapped error and makes no other call; when it succeeds the next call is
  \<open>createOrUpdateStore\<close>. With the external mode disabled \<open>createOrUpdateStore\<close> is the
  only call, so no validation is made.
\<close>

theorem external_cluster_version_check:
  assumes "reconcileCreateObjectStore ext r obj (start w) = (out, s)"
  shows "(\<forall>err w1. External_Enable (cephClusterSpec r)
              \<and> ValidateCephVersionsBetweenLocalAndExternalClusters ext (Namespace obj) (ci_CephVersion (clusterInfo r)) w = (Some err, w1)
            \<longrightarrow> out = Return Result_zero (Some (Wrapped err ''refusing to run new crd'' []))
              \<and> trace s = [ev_ValidateCephVersions r obj (Some err)]
              \<and> world s = w1)
       \<and> (\<forall>w1. External_Enable (cephClusterSpec r)
              \<and> ValidateCephVersionsBetweenLocalAndExternalClusters ext (Namespace obj) (ci_CephVersion (clusterInfo r)) w = (None, w1)
            \<longrightarrow> (\<exists>res. trace s = [ev_ValidateCephVersions r obj None,
                                 E_createOrUpdateStore (createConfig ext r obj) res]
                   \<and> createOrUpdateStore ext (createConfig ext r obj) w1 = (res, world s)
                   \<and> out = Return Result_zero (Wrapf res ''failed to create object store %q'' [Name obj])))
       \<and> (\<not> External_Enable (cephClusterSpec r)
            \<longrightarrow> (\<exists>res. trace s = [E_createOrUpdateStore (createConfig ext r obj) res]
                   \<and> createOrUpdateStore ext (createConfig ext r obj) w = (res, world s)
                   \<and> out = Return Result_zero (Wrapf res ''failed to create object store %q'' [Name obj])))"
proof -
  note defs = reconcileCreateObjectStore_def createStore_def call_def start_def Wrapf_def Let_def
  show ?thesis
  proof (cases "External_Enable (cephClusterSpec r)")
    case True
    obtain v w1 where v: "ValidateCephVersionsBetweenLocalAndExternalClusters ext (Namespace obj) (ci_CephVersion (clusterInfo r)) w = (v, w1)"
      by force
    obtain c w2 where c: "createOrUpdateStore ext (createConfig ext r obj) w1 = (c, w2)"
      by force
    from assms True v c show ?thesis
      by (cases v; cases c) (auto simp: defs)
  next
    case False
    obtain c w2 where c: "createOrUpdateStore ext (createConfig ext r obj) w = (c, w2)"
      by force
    from assms False c show ?thesis
      by (cases c) (auto simp: defs)
  qed
qed

theorem external_cluster_version_check_witness:
  "External_Enable (cephClusterSpec demo_external)
   \<and> ValidateCephVersionsBetweenLocalAndExternalClusters upgraded (Namespace demo_ready) (ci_CephVersion (clusterInfo demo_external)) 0
        = (Some mismatch, 1)
   \<and> fst run_upgraded = Return Result_zero (Some (Wrapped mismatch ''refusing to run new crd'' []))
   \<and> trace (snd run_upgraded) = [E_ValidateCephVersions ''rook-ceph'' demo_version (Some mismatch)]
   \<and> \<not> External_Enable (cephClusterSpec demo_local)
   \<and> trace (snd run_local) = [E_createOrUpdateStore (createConfig (calm demo_ready) demo_local demo_ready) None]
   \<and> fst run_local = Return Result_zero None"
proof -
  have run1: "reconcileCreateObjectStore upgraded demo_external demo_ready (start 0)
      = (fst run_upgraded, snd run_upgraded)"
    by (simp add: run_upgraded_def)
  have run2: "reconcileCreateObjectStore (calm demo_ready) demo_local demo_ready (start 0)
      = (fst run_local, snd run_local)"
    by (simp add: run_local_def)
  from external_cluster_version_check[OF run1] external_cluster_version_check[OF run2]
  show ?thesis
    by (simp add: run_upgraded_def run_local_def upgraded_def eval)
qed

text \<open>
  C10. When the fetch of the record fails with an error that is not a not-found error,
  \<open>reconcile\<close> returns \<open>reconcile.Result{}\<close> with the error wrapped, and the fetch is the
  only call of the run. When the record is not found the call returns
  \<open>reconcile.Result{}\<close> with a nil error after one debug log line. Either way the run has
  no status write, no finalizer write, no phase call and no teardown, and the world is
  the one the fetch left.
\<close>

theorem fetch_failure_returns_at_once:
  assumes "client_Get ext request w = (Inl err, w')"
    and "reconcile ext request w = (out, s)"
  shows "world s = w'
       \<and> (\<not> IsNotFound err \<longrightarrow>
            out = Return Result_zero (Some (Wrapped err ''failed to get cephObjectStore'' []))
            \<and> trace s = [E_Get request (Inl err)])
       \<and> (IsNotFound err \<longrightarrow>
            out = Return Result_zero None
            \<and> trace s = [E_Get request (Inl err), E_logger Debug
                 ''cephObjectStore resource not found. Ignoring since object must be deleted.'' []])
       \<and> (\<forall>e\<in>set (trace s). \<not> is_status_write e \<and> \<not> is_finalizer_write e
              \<and> \<not> is_phase e \<and> \<not> is_teardown e)"
  using assms
  by (auto simp: reconcile_def call_def start_def logger_def Wrap_def Wrapf_def is_phase_def
      split: if_splits)

theorem fetch_failure_returns_at_once_witness:
  "client_Get unreachable demo_request 0 = (Inl refused, 1)
   \<and> \<not> IsNotFound refused
   \<and> reconcile unreachable demo_request 0
       = (Return Result_zero (Some (Wrapped refused ''failed to get cephObjectStore'' [])),
          \<lparr>world = 1, trace = [E_Get demo_request (Inl refused)]\<rparr>)
   \<and> client_Get absent demo_request 0 = (Inl missing, 1)
   \<and> IsNotFound missing
   \<and> fst (reconcile absent demo_request 0) = Return Result_zero None"
proof -
  have run1: "reconcile unreachable demo_request 0
      = (fst (reconcile unreachable demo_request 0), snd (reconcile unreachable demo_request 0))"
    by simp
  have run2: "reconcile absent demo_request 0
      = (fst (reconcile absent demo_request 0), snd (reconcile absent demo_request 0))"
    by simp
  have h1: "client_Get unreachable demo_request 0 = (Inl refused, 1)"
    by (simp add: unreachable_def calm_def)
  have h2: "client_Get absent demo_request 0 = (Inl missing, 1)"
    by (simp add: absent_def calm_def)
  from fetch_failure_returns_at_once[OF h1 run1] fetch_failure_returns_at_once[OF h2 run2] h1 h2
  show ?thesis
    by (simp add: unreachable_def absent_def eval)
qed

end
